theory Spec2Isabelle
  imports Complex_Main "HOL-Library.Code_Target_Numeral"
begin

section \<open>Upload pipeline of the FileUpload component\<close>

text \<open>
  The development embeds \<^verbatim>\<open>src/frontend/src/components/upload/FileUpload.tsx\<close>:
  the pre-flight check \<^verbatim>\<open>beforeUpload\<close>, the transfer routine \<^verbatim>\<open>customUpload\<close> with its
  three XMLHttpRequest listeners, and \<^verbatim>\<open>removeFile\<close>.

  Strings are byte strings. The user-facing literals of the source are Chinese; each is
  kept as the UTF-8 bytes of the literal, with an English gloss in its comment. React
  state is passed explicitly, and every call into the environment (toasts, console,
  \<^verbatim>\<open>JSON.parse\<close>, the \<^verbatim>\<open>onProgress\<close>/\<^verbatim>\<open>onSuccess\<close>/\<^verbatim>\<open>onError\<close> callbacks) is recorded,
  in call order, in a list of effects. Numbers of the percentage are binary64 doubles,
  modelled as the rationals they denote with the rounding of each operation written out.
\<close>

subsection \<open>Data\<close>

text \<open>The two fields of the browser's \<^verbatim>\<open>File\<close> that the component reads.\<close>

record File =
  name :: string
  size_bytes :: nat

text \<open>\<^verbatim>\<open>interface FileInfo\<close> (lines 28-36).\<close>

record FileInfo =
  filename :: string
  original_name :: string
  size_info :: nat
  extension :: string
  upload_time :: string
  file_path :: string
  status :: string

text \<open>\<^verbatim>\<open>interface UploadResponse\<close> (lines 39-44).\<close>

record UploadResponse =
  success :: bool
  message :: string
  file_info :: FileInfo
  response_project_id :: string

text \<open>
  An element of \<^verbatim>\<open>uploadedFiles\<close>, of type \<^verbatim>\<open>FileInfo & { project_id: string }\<close> (line 49).
\<close>

record UploadedFile = FileInfo +
  project_id :: string

text \<open>
  The values \<^verbatim>\<open>JSON.parse\<close> returns. A number is the rational its double denotes, or an
  infinity (a literal too large for a double) with its sign, \<open>True\<close> for the negative one;
  negative zero is zero. An object lists its properties in the order the engine enumerates
  them, each key once.
\<close>

datatype json =
    JNull
  | JBool bool
  | JNum rat
  | JInfinity bool
  | JStr string
  | JArr "json list"
  | JObj "(string \<times> json) list"

text \<open>
  The type annotation of line 49 is erased when the program runs: what the list holds is
  whatever object line 111 built. \<open>Typed\<close> is an object of the declared type; \<open>Untyped\<close> is
  any other object, as its properties, where the value \<open>None\<close> is \<^verbatim>\<open>undefined\<close>.
\<close>

datatype entry =
    Typed UploadedFile
  | Untyped "(string \<times> json option) list"

text \<open>The three \<^verbatim>\<open>useState\<close> cells of the component (lines 47-49).\<close>

record state =
  uploading :: bool
  uploadProgress :: int
  uploadedFiles :: "entry list"

text \<open>
  Calls into the environment. \<^verbatim>\<open>onError\<close> carries the message of the \<^verbatim>\<open>Error\<close> object it
  is given; \<^verbatim>\<open>console_error\<close> carries the label and the message of the logged error.

  The last four are the same calls with arguments outside the declared types, made when
  the parsed body is not an \<^verbatim>\<open>UploadResponse\<close>: \<open>message_success_value\<close> and
  \<open>onSuccess_value\<close> carry the JavaScript value passed; \<open>onError_thrown m\<close> and
  \<open>console_error_thrown label m\<close> carry the argument \<open>m\<close> of the \<^verbatim>\<open>new Error(m)\<close> of line 118,
  whose evaluation produced the error that was caught.
\<close>

datatype effect =
    message_error string
  | message_success string
  | console_error string string
  | JSON_parse string
  | onProgress int
  | onSuccess UploadResponse
  | onError string
  | message_success_value "json option"
  | onSuccess_value json
  | console_error_thrown string "json option"
  | onError_thrown "json option"

subsection \<open>String literals of the source\<close>

definition txt_unsupported_type :: string where
  \<comment> \<open>line 63, first part: "unsupported file type: "\<close>
  "txt_unsupported_type =
     [CHR 0xE4, CHR 0xB8, CHR 0x8D, CHR 0xE6, CHR 0x94, CHR 0xAF, CHR 0xE6, CHR 0x8C,
      CHR 0x81, CHR 0xE7, CHR 0x9A, CHR 0x84, CHR 0xE6, CHR 0x96, CHR 0x87, CHR 0xE4,
      CHR 0xBB, CHR 0xB6, CHR 0xE7, CHR 0xB1, CHR 0xBB, CHR 0xE5, CHR 0x9E, CHR 0x8B] @ '': ''"

definition txt_supported_types :: string where
  \<comment> \<open>line 63, second part: ". supported types: "\<close>
  "txt_supported_types =
     [CHR 0xE3, CHR 0x80, CHR 0x82, CHR 0xE6, CHR 0x94, CHR 0xAF, CHR 0xE6, CHR 0x8C,
      CHR 0x81, CHR 0xE7, CHR 0x9A, CHR 0x84, CHR 0xE7, CHR 0xB1, CHR 0xBB, CHR 0xE5,
      CHR 0x9E, CHR 0x8B] @ '': ''"

definition txt_too_large :: string where
  \<comment> \<open>line 69: "file size must not exceed 50MB"\<close>
  "txt_too_large =
     [CHR 0xE6, CHR 0x96, CHR 0x87, CHR 0xE4, CHR 0xBB, CHR 0xB6, CHR 0xE5, CHR 0xA4,
      CHR 0xA7, CHR 0xE5, CHR 0xB0, CHR 0x8F, CHR 0xE4, CHR 0xB8, CHR 0x8D, CHR 0xE8,
      CHR 0x83, CHR 0xBD, CHR 0xE8, CHR 0xB6, CHR 0x85, CHR 0xE8, CHR 0xBF, CHR 0x87] @ '' 50MB''"

definition txt_upload_failed_http :: string where
  \<comment> \<open>line 126: "upload failed: HTTP "\<close>
  "txt_upload_failed_http =
     [CHR 0xE4, CHR 0xB8, CHR 0x8A, CHR 0xE4, CHR 0xBC, CHR 0xA0, CHR 0xE5, CHR 0xA4,
      CHR 0xB1, CHR 0xE8, CHR 0xB4, CHR 0xA5] @ '': HTTP ''"

definition txt_parse_failed :: string where
  \<comment> \<open>line 121: "failed to parse the response:"\<close>
  "txt_parse_failed =
     [CHR 0xE8, CHR 0xA7, CHR 0xA3, CHR 0xE6, CHR 0x9E, CHR 0x90, CHR 0xE5, CHR 0x93,
      CHR 0x8D, CHR 0xE5, CHR 0xBA, CHR 0x94, CHR 0xE5, CHR 0xA4, CHR 0xB1, CHR 0xE8,
      CHR 0xB4, CHR 0xA5] @ '':''"

definition txt_format_error :: string where
  \<comment> \<open>line 122: "server response format error"\<close>
  "txt_format_error =
     [CHR 0xE6, CHR 0x9C, CHR 0x8D, CHR 0xE5, CHR 0x8A, CHR 0xA1, CHR 0xE5, CHR 0x99,
      CHR 0xA8, CHR 0xE5, CHR 0x93, CHR 0x8D, CHR 0xE5, CHR 0xBA, CHR 0x94, CHR 0xE6,
      CHR 0xA0, CHR 0xBC, CHR 0xE5, CHR 0xBC, CHR 0x8F, CHR 0xE9, CHR 0x94, CHR 0x99,
      CHR 0xE8, CHR 0xAF, CHR 0xAF]"

definition txt_network_error :: string where
  \<comment> \<open>line 137: "network error, upload failed"\<close>
  "txt_network_error =
     [CHR 0xE7, CHR 0xBD, CHR 0x91, CHR 0xE7, CHR 0xBB, CHR 0x9C, CHR 0xE9, CHR 0x94,
      CHR 0x99, CHR 0xE8, CHR 0xAF, CHR 0xAF, CHR 0xEF, CHR 0xBC, CHR 0x8C, CHR 0xE4,
      CHR 0xB8, CHR 0x8A, CHR 0xE4, CHR 0xBC, CHR 0xA0, CHR 0xE5, CHR 0xA4, CHR 0xB1,
      CHR 0xE8, CHR 0xB4, CHR 0xA5]"

definition txt_upload_exception_log :: string where
  \<comment> \<open>line 149: "upload exception:"\<close>
  "txt_upload_exception_log =
     [CHR 0xE4, CHR 0xB8, CHR 0x8A, CHR 0xE4, CHR 0xBC, CHR 0xA0, CHR 0xE5, CHR 0xBC,
      CHR 0x82, CHR 0xE5, CHR 0xB8, CHR 0xB8] @ '':''"

definition txt_upload_exception :: string where
  \<comment> \<open>line 150: "an exception occurred during the upload"\<close>
  "txt_upload_exception =
     [CHR 0xE4, CHR 0xB8, CHR 0x8A, CHR 0xE4, CHR 0xBC, CHR 0xA0, CHR 0xE8, CHR 0xBF,
      CHR 0x87, CHR 0xE7, CHR 0xA8, CHR 0x8B, CHR 0xE4, CHR 0xB8, CHR 0xAD, CHR 0xE5,
      CHR 0x8F, CHR 0x91, CHR 0xE7, CHR 0x94, CHR 0x9F, CHR 0xE5, CHR 0xBC, CHR 0x82,
      CHR 0xE5, CHR 0xB8, CHR 0xB8]"

definition txt_null_TypeError :: string where
  \<comment> \<open>the message of the TypeError of line 107 when \<^verbatim>\<open>response\<close> is \<^verbatim>\<open>null\<close>, in V8's wording\<close>
  "txt_null_TypeError = ''Cannot read properties of null (reading 'success')''"

definition txt_removed :: string where
  \<comment> \<open>line 160: "file removed from the list"\<close>
  "txt_removed =
     [CHR 0xE6, CHR 0x96, CHR 0x87, CHR 0xE4, CHR 0xBB, CHR 0xB6, CHR 0xE5, CHR 0xB7,
      CHR 0xB2, CHR 0xE4, CHR 0xBB, CHR 0x8E, CHR 0xE5, CHR 0x88, CHR 0x97, CHR 0xE8,
      CHR 0xA1, CHR 0xA8, CHR 0xE4, CHR 0xB8, CHR 0xAD, CHR 0xE7, CHR 0xA7, CHR 0xBB,
      CHR 0xE9, CHR 0x99, CHR 0xA4]"

subsection \<open>String operations of the JavaScript library\<close>

text \<open>
  \<^verbatim>\<open>String.prototype.split\<close> with a one-character separator: the pieces between the
  separators, in order; a string without the separator (the empty one too) gives one piece.
\<close>

fun split_sep :: "char \<Rightarrow> string \<Rightarrow> string list" where
  "split_sep sep [] = [[]]"
| "split_sep sep (c # cs) =
     (if c = sep then [] # split_sep sep cs
      else (case split_sep sep cs of
              [] \<Rightarrow> [[c]]
            | s # ss \<Rightarrow> (c # s) # ss))"

text \<open>\<^verbatim>\<open>Array.prototype.pop\<close>, for its result: the last element, \<^verbatim>\<open>undefined\<close> on an empty array.\<close>

definition pop :: "'a list \<Rightarrow> 'a option" where
  "pop xs = (if xs = [] then None else Some (last xs))"

text \<open>
  \<^verbatim>\<open>String.prototype.toLowerCase\<close> on the ASCII letters; every other byte is kept. (The
  bytes of a non-ASCII character are all above 127, so none of them is a letter or a dot.)
  A capital letter outside ASCII, which the source lower-cases too, is left as it is here:
  the extension shown in the toast differs for such a name, the decision does not, since
  no supported extension has a letter that is the lower case of a non-ASCII character.
\<close>

definition toLowerCase_char :: "char \<Rightarrow> char" where
  "toLowerCase_char c =
     (case map_of (zip ''ABCDEFGHIJKLMNOPQRSTUVWXYZ'' ''abcdefghijklmnopqrstuvwxyz'') c of
        None \<Rightarrow> c
      | Some l \<Rightarrow> l)"

definition toLowerCase :: "string \<Rightarrow> string" where
  "toLowerCase s = map toLowerCase_char s"

text \<open>\<^verbatim>\<open>Array.prototype.join\<close>.\<close>

fun join :: "string \<Rightarrow> string list \<Rightarrow> string" where
  "join sep [] = []"
| "join sep [s] = s"
| "join sep (s # t # ts) = s @ sep @ join sep (t # ts)"

text \<open>The decimal rendering of a non-negative integer, as a template literal prints it.\<close>

definition digit_char :: "nat \<Rightarrow> char" where
  "digit_char d = ''0123456789'' ! d"

fun string_of_nat :: "nat \<Rightarrow> string" where
  "string_of_nat n =
     (if n < 10 then [digit_char n] else string_of_nat (n div 10) @ [digit_char (n mod 10)])"

declare string_of_nat.simps [simp del]

subsection \<open>The pre-flight check\<close>

definition supportedExtensions :: "string list" where
  "supportedExtensions =
     [''.cpp'', ''.hpp'', ''.h'', ''.c'', ''.cc'', ''.cxx'', ''.zip'', ''.tar.gz'', ''.tgz'']"

definition maxFileSize :: nat where
  "maxFileSize = 50 * 1024 * 1024"

text \<open>
  Line 61: \<^verbatim>\<open>'.' + file.name.split('.').pop()?.toLowerCase()\<close>. The optional chaining
  leaves \<^verbatim>\<open>undefined\<close> as it is, and the concatenation prints it as the word.
\<close>

definition fileExtension :: "string \<Rightarrow> string" where
  "fileExtension nm =
     ''.'' @ (case pop (split_sep (CHR ''.'') nm) of
                None \<Rightarrow> ''undefined''
              | Some s \<Rightarrow> toLowerCase s)"

text \<open>
  \<^verbatim>\<open>beforeUpload\<close> (lines 59-74): the boolean it returns and the toast it shows.
\<close>

definition beforeUpload :: "File \<Rightarrow> bool \<times> effect list" where
  "beforeUpload file =
     (if fileExtension (name file) \<notin> set supportedExtensions then
        (False, [message_error (txt_unsupported_type @ fileExtension (name file)
                   @ txt_supported_types @ join '', '' supportedExtensions)])
      else if size_bytes file > maxFileSize then
        (False, [message_error txt_too_large])
      else (True, []))"

subsection \<open>The transfer\<close>

text \<open>
  \<^verbatim>\<open>customUpload\<close> (lines 77-155) sets the two flags, then builds and sends the request
  inside a \<^verbatim>\<open>try\<close> block. Whether that block throws is decided by the browser, so it is
  an input here: \<open>Sent\<close> when \<^verbatim>\<open>xhr.send\<close> returned, \<open>Thrown e\<close> when the block threw an
  error with message \<open>e\<close> and the \<^verbatim>\<open>catch\<close> of lines 148-154 ran.
\<close>

datatype sync_outcome = Sent | Thrown string

definition customUpload :: "sync_outcome \<Rightarrow> state \<Rightarrow> state \<times> effect list" where
  "customUpload r st =
     (let st1 = st\<lparr>uploading := True\<rparr>;
          st2 = st1\<lparr>uploadProgress := 0\<rparr>
      in case r of
           Sent \<Rightarrow> (st2, [])
         | Thrown e \<Rightarrow>
             (st2\<lparr>uploading := False, uploadProgress := 0\<rparr>,
              [console_error txt_upload_exception_log e,
               message_error txt_upload_exception,
               onError e]))"

text \<open>The fields of the browser's \<^verbatim>\<open>ProgressEvent\<close> that the listener reads.\<close>

record ProgressEvent =
  lengthComputable :: bool
  loaded :: nat
  total :: nat

text \<open>
  The \<^verbatim>\<open>progress\<close> listener (lines 94-100), written over the function that computes
  \<^verbatim>\<open>Math.round((event.loaded / event.total) * 100)\<close>: the parameter \<open>round_percent\<close>. Its
  reading in double arithmetic is \<open>percent\<close>, defined below.
\<close>

definition on_progress ::
  "(nat \<Rightarrow> nat \<Rightarrow> int) \<Rightarrow> ProgressEvent \<Rightarrow> state \<Rightarrow> state \<times> effect list" where
  "on_progress round_percent event st =
     (if lengthComputable event then
        (let percent = round_percent (loaded event) (total event)
         in (st\<lparr>uploadProgress := percent\<rparr>, [onProgress percent]))
      else (st, []))"

text \<open>
  What lines 106-118 do with the parsed body when it is not of the declared type.

  \<open>get_prop v k\<close> is \<^verbatim>\<open>v.k\<close> for a value \<open>v\<close> other than \<^verbatim>\<open>null\<close> and for the four keys the
  listener reads (\<^verbatim>\<open>success\<close>, \<^verbatim>\<open>message\<close>, \<^verbatim>\<open>file_info\<close>, \<^verbatim>\<open>project_id\<close>): a property of an
  object, and \<^verbatim>\<open>undefined\<close> on a boolean, a number, a string or an array, which have none of
  these keys.
\<close>

fun get_prop :: "json \<Rightarrow> string \<Rightarrow> json option" where
  "get_prop (JObj ps) k = map_of ps k"
| "get_prop _ k = None"

text \<open>The truth value a condition gives to a value.\<close>

fun truthy :: "json option \<Rightarrow> bool" where
  "truthy None = False"
| "truthy (Some JNull) = False"
| "truthy (Some (JBool b)) = b"
| "truthy (Some (JNum n)) = (n \<noteq> 0)"
| "truthy (Some (JInfinity negative)) = True"
| "truthy (Some (JStr s)) = (s \<noteq> [])"
| "truthy (Some (JArr xs)) = True"
| "truthy (Some (JObj ps)) = True"

text \<open>
  The properties the spread \<^verbatim>\<open>{...x}\<close> copies: those of an object; the elements of an array
  and the characters of a string (here its bytes) under their indices; none for any other
  value.
\<close>

definition indexed :: "json list \<Rightarrow> (string \<times> json option) list" where
  "indexed xs = map (\<lambda>(i, x). (string_of_nat i, Some x)) (List.enumerate 0 xs)"

fun spread :: "json option \<Rightarrow> (string \<times> json option) list" where
  "spread (Some (JObj ps)) = map (\<lambda>(k, v). (k, Some v)) ps"
| "spread (Some (JArr xs)) = indexed xs"
| "spread (Some (JStr s)) = indexed (map (\<lambda>c. JStr [c]) s)"
| "spread _ = []"

text \<open>
  A property written after the spread in an object literal: it replaces the value of a
  property of that name, and is added at the end when there is none.
\<close>

definition set_prop ::
  "string \<Rightarrow> json option \<Rightarrow> (string \<times> json option) list \<Rightarrow> (string \<times> json option) list" where
  "set_prop k v ps =
     (if k \<in> fst ` set ps then map (\<lambda>(k', v'). if k' = k then (k, v) else (k', v')) ps
      else ps @ [(k, v)])"

text \<open>
  The outcome of \<^verbatim>\<open>JSON.parse(xhr.responseText)\<close> (line 106): it throws an error with a
  message; or it returns a value of the declared type \<^verbatim>\<open>UploadResponse\<close>, read as the record;
  or it returns any other JSON value.
\<close>

datatype parsed =
    Throws string
  | Ack UploadResponse
  | Other json

text \<open>
  The \<^verbatim>\<open>load\<close> listener (lines 103-133), for the status and the body the request ended
  with; \<open>parse\<close> is \<^verbatim>\<open>JSON.parse\<close>. The \<^verbatim>\<open>throw\<close> of line 118 lands in the \<^verbatim>\<open>catch\<close> of line 120,
  as a parse failure does, and so does the TypeError of reading \<^verbatim>\<open>null.success\<close>. For a value
  not of the declared type the same lines run on what the value holds: the test of line 107
  is the truth value of its \<^verbatim>\<open>success\<close>, and the object of lines 111-114 has the properties
  spread from its \<^verbatim>\<open>file_info\<close> and its \<^verbatim>\<open>project_id\<close>.
\<close>

definition on_load ::
  "(string \<Rightarrow> parsed) \<Rightarrow> nat \<Rightarrow> string \<Rightarrow> state \<Rightarrow> state \<times> effect list" where
  "on_load parse xhr_status responseText st =
     (let (st1, effs) =
        (if xhr_status = 200 then
           (case parse responseText of
              Throws parseError \<Rightarrow>
                (st, [JSON_parse responseText,
                      console_error txt_parse_failed parseError,
                      message_error txt_format_error,
                      onError parseError])
            | Ack response \<Rightarrow>
                if success response then
                  (st\<lparr>uploadedFiles := uploadedFiles st @
                       [Typed
                         \<lparr>filename = filename (file_info response),
                          original_name = original_name (file_info response),
                          size_info = size_info (file_info response),
                          extension = extension (file_info response),
                          upload_time = upload_time (file_info response),
                          file_path = file_path (file_info response),
                          status = status (file_info response),
                          project_id = response_project_id response\<rparr>]\<rparr>,
                   [JSON_parse responseText,
                    message_success (message response),
                    onSuccess response])
                else
                  (st, [JSON_parse responseText,
                        console_error txt_parse_failed (message response),
                        message_error txt_format_error,
                        onError (message response)])
            | Other JNull \<Rightarrow>
                (st, [JSON_parse responseText,
                      console_error txt_parse_failed txt_null_TypeError,
                      message_error txt_format_error,
                      onError txt_null_TypeError])
            | Other response \<Rightarrow>
                if truthy (get_prop response ''success'') then
                  (st\<lparr>uploadedFiles := uploadedFiles st @
                       [Untyped
                         (set_prop ''project_id'' (get_prop response ''project_id'')
                            (spread (get_prop response ''file_info'')))]\<rparr>,
                   [JSON_parse responseText,
                    message_success_value (get_prop response ''message''),
                    onSuccess_value response])
                else
                  (st, [JSON_parse responseText,
                        console_error_thrown txt_parse_failed (get_prop response ''message''),
                        message_error txt_format_error,
                        onError_thrown (get_prop response ''message'')]))
         else
           (let errorMessage = txt_upload_failed_http @ string_of_nat xhr_status
            in (st, [message_error errorMessage, onError errorMessage])))
      in (st1\<lparr>uploading := False, uploadProgress := 0\<rparr>, effs))"

text \<open>The \<^verbatim>\<open>error\<close> listener (lines 136-142).\<close>

definition on_error :: "state \<Rightarrow> state \<times> effect list" where
  "on_error st =
     (let errorMessage = txt_network_error
      in (st\<lparr>uploading := False, uploadProgress := 0\<rparr>,
          [message_error errorMessage, onError errorMessage]))"

text \<open>
  The events the request delivers to the three listeners, and the listeners run over a
  sequence of them, each on the state the one before left.
\<close>

datatype xhr_event =
    ProgressEv ProgressEvent
  | LoadEv nat string
  | ErrorEv

fun dispatch ::
  "(string \<Rightarrow> parsed) \<Rightarrow> (nat \<Rightarrow> nat \<Rightarrow> int) \<Rightarrow> xhr_event \<Rightarrow> state
     \<Rightarrow> state \<times> effect list" where
  "dispatch parse round_percent (ProgressEv event) st = on_progress round_percent event st"
| "dispatch parse round_percent (LoadEv xhr_status responseText) st =
     on_load parse xhr_status responseText st"
| "dispatch parse round_percent ErrorEv st = on_error st"

fun run_events ::
  "(string \<Rightarrow> parsed) \<Rightarrow> (nat \<Rightarrow> nat \<Rightarrow> int) \<Rightarrow> xhr_event list \<Rightarrow> state
     \<Rightarrow> state \<times> effect list" where
  "run_events parse round_percent [] st = (st, [])"
| "run_events parse round_percent (ev # evs) st =
     (let (st1, effs1) = dispatch parse round_percent ev st;
          (st2, effs2) = run_events parse round_percent evs st1
      in (st2, effs1 @ effs2))"

text \<open>
  One file handed to the \<^verbatim>\<open>Dragger\<close> (lines 187-194), which calls \<^verbatim>\<open>customRequest\<close> only
  when \<^verbatim>\<open>beforeUpload\<close> has returned \<^verbatim>\<open>true\<close>; the listeners run only when the request
  was sent.
\<close>

definition upload ::
  "(string \<Rightarrow> parsed) \<Rightarrow> (nat \<Rightarrow> nat \<Rightarrow> int) \<Rightarrow> File \<Rightarrow> sync_outcome
     \<Rightarrow> xhr_event list \<Rightarrow> state \<Rightarrow> state \<times> effect list" where
  "upload parse round_percent file r evs st =
     (case beforeUpload file of
        (False, effs) \<Rightarrow> (st, effs)
      | (True, effs) \<Rightarrow>
          (let (st1, effs1) = customUpload r st
           in case r of
                Thrown e \<Rightarrow> (st1, effs @ effs1)
              | Sent \<Rightarrow>
                  (let (st2, effs2) = run_events parse round_percent evs st1
                   in (st2, effs @ effs1 @ effs2))))"

text \<open>The events that end a request: \<^verbatim>\<open>load\<close> and \<^verbatim>\<open>error\<close>.\<close>

definition is_terminal :: "xhr_event \<Rightarrow> bool" where
  "is_terminal ev = (case ev of ProgressEv _ \<Rightarrow> False | LoadEv _ _ \<Rightarrow> True | ErrorEv \<Rightarrow> True)"



subsection \<open>The percentage in double arithmetic\<close>

text \<open>
  A binary64 double other than zero is \<open>m * 2 ^ e\<close> with a significand \<open>m\<close> of 53 bits. The
  result of an operation is the double nearest to the exact result, the one with the even
  significand when two are equally near. The exponent range is not modelled: the values
  here, quotients and hundredfolds of two 64-bit lengths, are far inside it.

  \<open>round_half_even\<close> rounds to the nearest integer, a tie to the even one.
\<close>

definition round_half_even :: "rat \<Rightarrow> int" where
  "round_half_even q =
     (let f = \<lfloor>q\<rfloor>; r = q - of_int f
      in if r < 1 / 2 then f else if 1 / 2 < r then f + 1 else if even f then f else f + 1)"

text \<open>The binary exponent of a positive number: \<open>2 ^ ilog2 x \<le> x < 2 ^ (ilog2 x + 1)\<close>.\<close>

function ilog2 :: "rat \<Rightarrow> int" where
  "ilog2 x =
     (if x \<le> 0 then 0
      else if 2 \<le> x then ilog2 (x / 2) + 1
      else if x < 1 then ilog2 (x * 2) - 1
      else 0)"
  by auto
termination
proof (relation "measure (\<lambda>x. nat \<lfloor>x\<rfloor> + 2 * nat \<lceil>1 / x\<rceil>)")
  show "wf (measure (\<lambda>x. nat \<lfloor>x\<rfloor> + 2 * nat \<lceil>1 / x\<rceil>))" by simp
next
  fix x :: rat
  assume "\<not> x \<le> 0" "2 \<le> x"
  then have "\<lfloor>x / 2\<rfloor> < \<lfloor>x\<rfloor>" by linarith
  moreover have "\<lceil>1 / (x / 2)\<rceil> = 1" "\<lceil>1 / x\<rceil> = 1"
    using \<open>2 \<le> x\<close> by (simp_all add: ceiling_eq_iff field_simps)
  moreover have "0 \<le> \<lfloor>x / 2\<rfloor>" using \<open>2 \<le> x\<close> by simp
  ultimately show "(x / 2, x) \<in> measure (\<lambda>x. nat \<lfloor>x\<rfloor> + 2 * nat \<lceil>1 / x\<rceil>)"
    using \<open>2 \<le> x\<close> by simp
next
  fix x :: rat
  assume a: "\<not> x \<le> 0" "\<not> 2 \<le> x" "x < 1"
  then have x: "0 < x" by simp
  have fl: "\<lfloor>x\<rfloor> = 0" using a x by (simp add: floor_eq_iff)
  have fl2: "\<lfloor>x * 2\<rfloor> \<le> 1" using a by (simp add: floor_le_iff)
  have fl2': "0 \<le> \<lfloor>x * 2\<rfloor>" using x by simp
  have "1 < 1 / x" using a x by (simp add: field_simps)
  then have c2: "2 \<le> \<lceil>1 / x\<rceil>" by linarith
  have "1 / (x * 2) = (1 / x) / 2" by simp
  also have "\<dots> \<le> of_int \<lceil>1 / x\<rceil> / 2" by (simp add: divide_right_mono)
  also have "\<dots> \<le> of_int (\<lceil>1 / x\<rceil> - 1)" using c2 by simp
  finally have "\<lceil>1 / (x * 2)\<rceil> \<le> \<lceil>1 / x\<rceil> - 1" by (rule ceiling_le)
  moreover have "0 < \<lceil>1 / (x * 2)\<rceil>" using x by simp
  ultimately show "(x * 2, x) \<in> measure (\<lambda>x. nat \<lfloor>x\<rfloor> + 2 * nat \<lceil>1 / x\<rceil>)"
    using fl fl2 fl2' c2 by simp linarith
qed

declare ilog2.simps [simp del]

text \<open>
  The double nearest to a rational: the number is scaled by a power of two into the range
  from \<open>2 ^ 52\<close> to \<open>2 ^ 53\<close>, rounded to an integer there, and scaled back.
\<close>

definition round_to_double :: "rat \<Rightarrow> rat" where
  "round_to_double x =
     (if x = 0 then 0
      else (let u = 2 powi (ilog2 \<bar>x\<bar> - 52) in of_int (round_half_even (x / u)) * u))"

text \<open>\<^verbatim>\<open>Math.round\<close>: the nearest integer, a tie to the greater one.\<close>

definition Math_round :: "rat \<Rightarrow> int" where
  "Math_round x = \<lfloor>x + 1 / 2\<rfloor>"

text \<open>
  Line 96, \<^verbatim>\<open>Math.round((event.loaded / event.total) * 100)\<close>, for a total other than 0:
  the two lengths become doubles, and the quotient and the product are rounded in turn.
  (For a total of 0 the quotient is \<^verbatim>\<open>NaN\<close> or \<^verbatim>\<open>Infinity\<close> and so is the result, which
  is no integer; the browser sets \<^verbatim>\<open>lengthComputable\<close> only for a total other than 0.)
\<close>

definition percent :: "nat \<Rightarrow> nat \<Rightarrow> int" where
  "percent l t =
     Math_round (round_to_double
       (round_to_double (round_to_double (of_nat l) / round_to_double (of_nat t)) * 100))"



subsection \<open>Removal from the list\<close>

text \<open>
  \<^verbatim>\<open>Array.prototype.filter\<close> with a callback that reads the element and its index.
\<close>

definition filter_indexed :: "('a \<Rightarrow> nat \<Rightarrow> bool) \<Rightarrow> 'a list \<Rightarrow> 'a list" where
  "filter_indexed f xs = map snd (filter (\<lambda>(i, x). f x i) (List.enumerate 0 xs))"

text \<open>
  \<^verbatim>\<open>removeFile\<close> (lines 158-161). The index is any integer; the positions of the list
  are \<open>0\<close>, \<open>1\<close>, ...
\<close>

definition removeFile :: "int \<Rightarrow> state \<Rightarrow> state \<times> effect list" where
  "removeFile index st =
     (st\<lparr>uploadedFiles := filter_indexed (\<lambda>_ i. int i \<noteq> index) (uploadedFiles st)\<rparr>,
      [message_success txt_removed])"

subsection \<open>Sample inputs\<close>

definition sample_info :: FileInfo where
  "sample_info =
     \<lparr>filename = ''f1_main.cpp'', original_name = ''main.cpp'', size_info = 1024,
      extension = ''.cpp'', upload_time = ''2024-01-01T00:00:00'',
      file_path = ''uploads/f1_main.cpp'', status = ''uploaded''\<rparr>"

definition sample_ack :: UploadResponse where
  "sample_ack =
     \<lparr>success = True, message = ''ok'', file_info = sample_info, response_project_id = ''p1''\<rparr>"

definition sample_nack :: UploadResponse where
  "sample_nack = sample_ack\<lparr>success := False, message := ''quota exceeded''\<rparr>"

text \<open>
  A parser that knows three bodies; the third is the text \<^verbatim>\<open>{"success":true}\<close>.
\<close>

definition body_success_only :: string where
  "body_success_only = ''{'' @ [CHR 0x22] @ ''success'' @ [CHR 0x22] @ '':true}''"

definition sample_parse :: "string \<Rightarrow> parsed" where
  "sample_parse body =
     (if body = ''ack'' then Ack sample_ack
      else if body = ''nack'' then Ack sample_nack
      else if body = body_success_only then Other (JObj [(''success'', JBool True)])
      else Throws ''Unexpected token'')"

definition idle :: state where
  "idle = \<lparr>uploading = False, uploadProgress = 0, uploadedFiles = []\<rparr>"

definition sample_file :: "string \<Rightarrow> nat \<Rightarrow> File" where
  "sample_file nm n = \<lparr>name = nm, size_bytes = n\<rparr>"

definition sample_entry :: "string \<Rightarrow> entry" where
  "sample_entry pid =
     Typed \<lparr>filename = ''f'', original_name = ''o'', size_info = 1, extension = ''.c'',
            upload_time = ''t'', file_path = ''p'', status = ''uploaded'', project_id = pid\<rparr>"


section \<open>Properties\<close>

subsection \<open>Splitting at the dots\<close>

lemma split_sep_nonempty: "split_sep sep s \<noteq> []"
  by (induction s) (auto split: list.splits)

lemma split_sep_no_sep: "sep \<notin> set s \<Longrightarrow> split_sep sep s = [s]"
  by (induction s) auto

lemma split_sep_append: "split_sep sep (p @ sep # r) = split_sep sep p @ split_sep sep r"
  by (induction p) (auto simp: split_sep_nonempty split: list.splits)

lemma last_split_sep: "sep \<notin> set s \<Longrightarrow> last (split_sep sep (p @ sep # s)) = s"
  by (simp add: split_sep_append split_sep_no_sep)

text \<open>\<^verbatim>\<open>pop\<close> always finds a piece, so the optional chaining of line 61 never sees \<^verbatim>\<open>undefined\<close>.\<close>

lemma pop_split_sep: "pop (split_sep sep nm) = Some (last (split_sep sep nm))"
  by (simp add: pop_def split_sep_nonempty)

lemma fileExtension_after_dot:
  "CHR ''.'' \<notin> set s \<Longrightarrow> fileExtension (p @ CHR ''.'' # s) = CHR ''.'' # toLowerCase s"
  by (simp add: fileExtension_def pop_split_sep last_split_sep)

lemma fileExtension_no_dot:
  "CHR ''.'' \<notin> set nm \<Longrightarrow> fileExtension nm = CHR ''.'' # toLowerCase nm"
  by (simp add: fileExtension_def pop_def split_sep_no_sep)

lemma toLowerCase_gz: "toLowerCase ''gz'' = ''gz''"
  by (simp add: toLowerCase_def toLowerCase_char_def)

lemma fileExtension_tar_gz: "fileExtension (p @ ''.tar.gz'') = ''.gz''"
proof -
  have "fileExtension ((p @ ''.tar'') @ CHR ''.'' # ''gz'') = CHR ''.'' # toLowerCase ''gz''"
    by (rule fileExtension_after_dot) simp
  then show ?thesis by (simp add: toLowerCase_gz)
qed

lemma join_supportedExtensions:
  "join '', '' supportedExtensions = ''.cpp, .hpp, .h, .c, .cc, .cxx, .zip, .tar.gz, .tgz''"
  by (simp add: supportedExtensions_def)

subsection \<open>The pre-flight check\<close>

text \<open>
  Claim C4. An artifact whose name ends with \<open>.tar.gz\<close> and whose size is within the
  limit should be accepted, \<open>.tar.gz\<close> being in the list of supported extensions. The
  list does hold \<open>.tar.gz\<close>, but the extension taken from such a name is \<open>.gz\<close>, the text
  after the last dot, which the list does not hold: \<^verbatim>\<open>beforeUpload\<close> rejects every such
  name as an unsupported type, whatever the size.
\<close>

theorem beforeUpload_rejects_tar_gz:
  "''.tar.gz'' \<in> set supportedExtensions \<and>
   fileExtension (p @ ''.tar.gz'') = ''.gz'' \<and>
   beforeUpload \<lparr>name = p @ ''.tar.gz'', size_bytes = n\<rparr> =
     (False, [message_error (txt_unsupported_type @ ''.gz'' @ txt_supported_types
                @ ''.cpp, .hpp, .h, .c, .cc, .cxx, .zip, .tar.gz, .tgz'')])"
proof -
  have "''.gz'' \<notin> set supportedExtensions"
    by (simp add: supportedExtensions_def)
  then show ?thesis
    by (simp add: beforeUpload_def fileExtension_tar_gz join_supportedExtensions)
      (simp add: supportedExtensions_def)
qed

text \<open>
  Claim C5. For an artifact that passes the extension check, the limit is
  50 * 1024 * 1024 bytes, a size equal to the limit is accepted, a size one byte above it is
  rejected with the too-large message, and in general the artifact is rejected exactly when
  its size is strictly greater than the limit.
\<close>

theorem beforeUpload_size_boundary:
  assumes "fileExtension (name f) \<in> set supportedExtensions"
  shows "maxFileSize = 50 * 1024 * 1024 \<and>
         beforeUpload (f\<lparr>size_bytes := maxFileSize\<rparr>) = (True, []) \<and>
         beforeUpload (f\<lparr>size_bytes := maxFileSize + 1\<rparr>) = (False, [message_error txt_too_large]) \<and>
         beforeUpload f =
           (if size_bytes f > maxFileSize then (False, [message_error txt_too_large])
            else (True, []))"
  using assms by (simp add: beforeUpload_def maxFileSize_def)

lemma fileExtension_main_cpp: "fileExtension ''main.cpp'' = ''.cpp''"
  by (simp add: fileExtension_def pop_def toLowerCase_def toLowerCase_char_def)

text \<open>The theorem at \<open>main.cpp\<close>: 52428800 bytes pass, 52428801 do not.\<close>

theorem beforeUpload_size_boundary_witness:
  "fileExtension (name (sample_file ''main.cpp'' 1024)) \<in> set supportedExtensions \<and>
   beforeUpload (sample_file ''main.cpp'' 52428800) = (True, []) \<and>
   beforeUpload (sample_file ''main.cpp'' 52428801) = (False, [message_error txt_too_large]) \<and>
   beforeUpload (sample_file ''main.cpp'' 1024) = (True, [])"
proof -
  have h: "fileExtension (name (sample_file ''main.cpp'' 1024)) \<in> set supportedExtensions"
    by (simp add: sample_file_def fileExtension_main_cpp supportedExtensions_def)
  from beforeUpload_size_boundary [OF h] h show ?thesis
    by (simp add: sample_file_def maxFileSize_def)
qed

text \<open>
  Claim C6. The extension is a dot followed by the lower-cased text after the last dot
  of the name, and by the lower-cased whole name when the name has no dot. The artifact is
  rejected as an unsupported type exactly when that string is not in the list of supported
  extensions. The extension is checked first: when it fails, the size is not looked at, and
  the one toast shown is the one for the type.
\<close>

theorem beforeUpload_extension_check:
  "(CHR ''.'' \<notin> set s \<longrightarrow> fileExtension (p @ ''.'' @ s) = ''.'' @ toLowerCase s) \<and>
   (CHR ''.'' \<notin> set nm \<longrightarrow> fileExtension nm = ''.'' @ toLowerCase nm) \<and>
   ((beforeUpload f =
       (False, [message_error (txt_unsupported_type @ fileExtension (name f)
                  @ txt_supported_types @ join '', '' supportedExtensions)]))
     = (fileExtension (name f) \<notin> set supportedExtensions)) \<and>
   (fileExtension (name f) \<notin> set supportedExtensions \<longrightarrow>
      beforeUpload (f\<lparr>size_bytes := n\<rparr>) = beforeUpload f)"
proof (intro conjI impI)
  assume "CHR ''.'' \<notin> set s"
  then show "fileExtension (p @ ''.'' @ s) = ''.'' @ toLowerCase s"
    using fileExtension_after_dot [of s p] by simp
next
  assume "CHR ''.'' \<notin> set nm"
  then show "fileExtension nm = ''.'' @ toLowerCase nm"
    by (simp add: fileExtension_no_dot)
next
  show "(beforeUpload f =
       (False, [message_error (txt_unsupported_type @ fileExtension (name f)
                  @ txt_supported_types @ join '', '' supportedExtensions)]))
     = (fileExtension (name f) \<notin> set supportedExtensions)"
    by (simp add: beforeUpload_def txt_too_large_def txt_unsupported_type_def)
next
  assume "fileExtension (name f) \<notin> set supportedExtensions"
  then show "beforeUpload (f\<lparr>size_bytes := n\<rparr>) = beforeUpload f"
    by (simp add: beforeUpload_def)
qed

lemma fileExtension_samples:
  "fileExtension ''Main.CPP'' = ''.cpp''"
  "fileExtension ''Makefile'' = ''.makefile''"
  "fileExtension ''payload.exe'' = ''.exe''"
  by (simp_all add: fileExtension_def pop_def toLowerCase_def toLowerCase_char_def)

text \<open>
  The theorem at \<open>Main.CPP\<close>, at \<open>Makefile\<close>, and at \<open>payload.exe\<close> with 10 bytes and with
  60 MiB.
\<close>

theorem beforeUpload_extension_check_witness:
  "CHR ''.'' \<notin> set ''CPP'' \<and> fileExtension ''Main.CPP'' = ''.cpp'' \<and>
   CHR ''.'' \<notin> set ''Makefile'' \<and> fileExtension ''Makefile'' = ''.makefile'' \<and>
   fileExtension (name (sample_file ''payload.exe'' 10)) \<notin> set supportedExtensions \<and>
   beforeUpload (sample_file ''payload.exe'' 62914560) = beforeUpload (sample_file ''payload.exe'' 10) \<and>
   beforeUpload (sample_file ''payload.exe'' 10) =
     (False, [message_error (txt_unsupported_type @ ''.exe'' @ txt_supported_types
                @ ''.cpp, .hpp, .h, .c, .cc, .cxx, .zip, .tar.gz, .tgz'')])"
proof -
  have h: "fileExtension (name (sample_file ''payload.exe'' 10)) \<notin> set supportedExtensions"
    by (simp add: sample_file_def fileExtension_samples supportedExtensions_def)
  from beforeUpload_extension_check
         [of "''CPP''" "''Main''" "''Makefile''" "sample_file ''payload.exe'' 10" 62914560] h
  show ?thesis
    by (simp add: sample_file_def fileExtension_samples toLowerCase_def toLowerCase_char_def
          join_supportedExtensions)
qed

subsection \<open>The load listener\<close>

lemma on_load_not_200:
  "xhr_status \<noteq> 200 \<Longrightarrow>
   on_load parse xhr_status body st =
     (st\<lparr>uploading := False, uploadProgress := 0\<rparr>,
      [message_error (txt_upload_failed_http @ string_of_nat xhr_status),
       onError (txt_upload_failed_http @ string_of_nat xhr_status)])"
  by (simp add: on_load_def Let_def)

lemma on_load_200_Throws:
  "parse body = Throws e \<Longrightarrow>
   on_load parse 200 body st =
     (st\<lparr>uploading := False, uploadProgress := 0\<rparr>,
      [JSON_parse body, console_error txt_parse_failed e, message_error txt_format_error,
       onError e])"
  by (simp add: on_load_def)

lemma on_load_200_nack:
  "parse body = Ack r \<Longrightarrow> \<not> success r \<Longrightarrow>
   on_load parse 200 body st =
     (st\<lparr>uploading := False, uploadProgress := 0\<rparr>,
      [JSON_parse body, console_error txt_parse_failed (message r),
       message_error txt_format_error, onError (message r)])"
  by (simp add: on_load_def)

lemma on_load_200_ack:
  "parse body = Ack r \<Longrightarrow> success r \<Longrightarrow>
   on_load parse 200 body st =
     (st\<lparr>uploadedFiles := uploadedFiles st @
           [Typed
             \<lparr>filename = filename (file_info r),
              original_name = original_name (file_info r),
              size_info = size_info (file_info r),
              extension = extension (file_info r),
              upload_time = upload_time (file_info r),
              file_path = file_path (file_info r),
              status = status (file_info r),
              project_id = response_project_id r\<rparr>],
         uploading := False, uploadProgress := 0\<rparr>,
      [JSON_parse body, message_success (message r), onSuccess r])"
  by (simp add: on_load_def)

lemma on_load_200_null:
  "parse body = Other JNull \<Longrightarrow>
   on_load parse 200 body st =
     (st\<lparr>uploading := False, uploadProgress := 0\<rparr>,
      [JSON_parse body, console_error txt_parse_failed txt_null_TypeError,
       message_error txt_format_error, onError txt_null_TypeError])"
  by (simp add: on_load_def)

lemma on_load_200_Other_truthy:
  "parse body = Other v \<Longrightarrow> v \<noteq> JNull \<Longrightarrow> truthy (get_prop v ''success'') \<Longrightarrow>
   on_load parse 200 body st =
     (st\<lparr>uploadedFiles := uploadedFiles st @
           [Untyped (set_prop ''project_id'' (get_prop v ''project_id'')
                       (spread (get_prop v ''file_info'')))],
         uploading := False, uploadProgress := 0\<rparr>,
      [JSON_parse body, message_success_value (get_prop v ''message''), onSuccess_value v])"
  by (cases v) (simp_all add: on_load_def)

lemma on_load_200_Other_falsy:
  "parse body = Other v \<Longrightarrow> v \<noteq> JNull \<Longrightarrow> \<not> truthy (get_prop v ''success'') \<Longrightarrow>
   on_load parse 200 body st =
     (st\<lparr>uploading := False, uploadProgress := 0\<rparr>,
      [JSON_parse body, console_error_thrown txt_parse_failed (get_prop v ''message''),
       message_error txt_format_error, onError_thrown (get_prop v ''message'')])"
  by (cases v) (simp_all add: on_load_def)

text \<open>
  The five ways the listener ends at status 200, and the one way at any other status.
\<close>

lemma on_load_cases:
  obtains (status) "xhr_status \<noteq> 200"
  | (throws) e where "xhr_status = 200" "parse body = Throws e"
  | (ack) r where "xhr_status = 200" "parse body = Ack r" "success r"
  | (nack) r where "xhr_status = 200" "parse body = Ack r" "\<not> success r"
  | (null) "xhr_status = 200" "parse body = Other JNull"
  | (truthy) v where "xhr_status = 200" "parse body = Other v" "v \<noteq> JNull"
      "truthy (get_prop v ''success'')"
  | (falsy) v where "xhr_status = 200" "parse body = Other v" "v \<noteq> JNull"
      "\<not> truthy (get_prop v ''success'')"
  by (cases "parse body") blast+

lemma JSON_parse_iff:
  "JSON_parse body \<in> set (snd (on_load parse xhr_status body st)) \<longleftrightarrow> xhr_status = 200"
  by (rule on_load_cases [where xhr_status = xhr_status and parse = parse and body = body])
    (simp_all add: on_load_not_200 on_load_200_Throws on_load_200_ack on_load_200_nack
       on_load_200_null on_load_200_Other_truthy on_load_200_Other_falsy)

lemma string_of_nat_samples:
  "string_of_nat 201 = ''201''"
  "string_of_nat 404 = ''404''"
  by (simp_all add: string_of_nat.simps [of 201] string_of_nat.simps [of 404]
        string_of_nat.simps [of 20] string_of_nat.simps [of 40]
        string_of_nat.simps [of 2] string_of_nat.simps [of 4] digit_char_def)

lemma sample_parse_simps:
  "sample_parse ''ack'' = Ack sample_ack"
  "sample_parse ''nack'' = Ack sample_nack"
  "success sample_ack"
  "\<not> success sample_nack"
  "message sample_nack = ''quota exceeded''"
  "sample_parse body_success_only = Other (JObj [(''success'', JBool True)])"
  "sample_parse ''<html>'' = Throws ''Unexpected token''"
  by (simp_all add: sample_parse_def sample_ack_def sample_nack_def body_success_only_def)

text \<open>
  Claim C1, as the code has it. When a transfer completes with an HTTP response, the
  listener parses the body exactly when the status equals 200. For every other status,
  those from 201 to 299 too, it does not parse the body, leaves the list of uploaded files
  as it was, and reports an error whose message is the literal of line 126 ("upload
  failed: HTTP ") followed by the status in decimal.
\<close>

theorem on_load_parses_iff_status_200:
  "(JSON_parse body \<in> set (snd (on_load parse xhr_status body st)) \<longleftrightarrow> xhr_status = 200) \<and>
   (xhr_status \<noteq> 200 \<longrightarrow>
      uploadedFiles (fst (on_load parse xhr_status body st)) = uploadedFiles st \<and>
      snd (on_load parse xhr_status body st) =
        [message_error (txt_upload_failed_http @ string_of_nat xhr_status),
         onError (txt_upload_failed_http @ string_of_nat xhr_status)])"
  by (simp add: JSON_parse_iff on_load_not_200)

text \<open>The theorem at status 404 and at status 200, for a body that would parse.\<close>

theorem on_load_parses_iff_status_200_witness:
  "(404 :: nat) \<noteq> 200 \<and>
   JSON_parse ''ack'' \<notin> set (snd (on_load sample_parse 404 ''ack'' idle)) \<and>
   uploadedFiles (fst (on_load sample_parse 404 ''ack'' idle)) = [] \<and>
   snd (on_load sample_parse 404 ''ack'' idle) =
     [message_error (txt_upload_failed_http @ ''404''),
      onError (txt_upload_failed_http @ ''404'')] \<and>
   JSON_parse ''ack'' \<in> set (snd (on_load sample_parse 200 ''ack'' idle))"
  using on_load_parses_iff_status_200 [of "''ack''" sample_parse 404 idle]
    on_load_parses_iff_status_200 [of "''ack''" sample_parse 200 idle]
  by (simp add: string_of_nat_samples idle_def)

text \<open>
  Status 201 lies in the range from 200 to 299, and the body is not parsed: the listener
  reports "upload failed: HTTP 201".
\<close>

theorem on_load_status_201_not_parsed:
  "(200 :: nat) \<le> 201 \<and> (201 :: nat) \<le> 299 \<and>
   JSON_parse ''ack'' \<notin> set (snd (on_load sample_parse 201 ''ack'' idle)) \<and>
   snd (on_load sample_parse 201 ''ack'' idle) =
     [message_error (txt_upload_failed_http @ ''201''),
      onError (txt_upload_failed_http @ ''201'')]"
  by (simp add: on_load_not_200 string_of_nat_samples)

text \<open>
  Claim C2, as the code has it. When the status equals 200 and the body parses as an
  acknowledgment whose \<open>success\<close> is true, exactly one entry is appended to the end of the
  list of uploaded files; its \<open>FileInfo\<close> fields are those of the acknowledgment's
  \<open>file_info\<close> and its \<open>project_id\<close> is the acknowledgment's.
\<close>

theorem on_load_appends_record_at_200:
  assumes "parse body = Ack r" and "success r"
  shows "\<exists>entry.
           uploadedFiles (fst (on_load parse 200 body st)) = uploadedFiles st @ [Typed entry] \<and>
           FileInfo.truncate entry = file_info r \<and>
           project_id entry = response_project_id r"
  using assms by (simp add: on_load_200_ack FileInfo.truncate_def)

text \<open>The theorem at the sample acknowledgment, on an empty list.\<close>

theorem on_load_appends_record_at_200_witness:
  "sample_parse ''ack'' = Ack sample_ack \<and> success sample_ack \<and>
   (\<exists>entry.
      uploadedFiles (fst (on_load sample_parse 200 ''ack'' idle))
        = uploadedFiles idle @ [Typed entry] \<and>
      FileInfo.truncate entry = file_info sample_ack \<and>
      project_id entry = response_project_id sample_ack)"
  using on_load_appends_record_at_200 [of sample_parse "''ack''" sample_ack idle]
  by (simp add: sample_parse_simps)

text \<open>
  Status 201 lies in the range from 200 to 299 and the body parses with \<open>success\<close> true,
  yet nothing is appended.
\<close>

theorem on_load_status_201_no_record:
  "(200 :: nat) \<le> 201 \<and> (201 :: nat) \<le> 299 \<and>
   sample_parse ''ack'' = Ack sample_ack \<and> success sample_ack \<and>
   uploadedFiles (fst (on_load sample_parse 201 ''ack'' (idle\<lparr>uploadedFiles := [sample_entry ''p0'']\<rparr>)))
     = [sample_entry ''p0'']"
  by (simp add: on_load_not_200 sample_parse_simps)

text \<open>
  Claim C3, as the code has it. When the status equals 200 and the body parses as an
  acknowledgment whose \<open>success\<close> is false, the state is left as any ended transfer leaves
  it, with nothing appended, and the transfer ends in one call of \<^verbatim>\<open>onError\<close> whose error
  carries the acknowledgment's \<open>message\<close>. The error has no kind: it is thrown inside the
  \<^verbatim>\<open>try\<close> block and reaches \<^verbatim>\<open>onError\<close> through the \<^verbatim>\<open>catch\<close> that also handles a body that
  does not parse.
\<close>

theorem on_load_success_false_message:
  assumes "parse body = Ack r" and "\<not> success r"
  shows "on_load parse 200 body st =
           (st\<lparr>uploading := False, uploadProgress := 0\<rparr>,
            [JSON_parse body, console_error txt_parse_failed (message r),
             message_error txt_format_error, onError (message r)])"
  using assms by (simp add: on_load_def)

text \<open>The theorem at the sample acknowledgment with \<open>success\<close> false.\<close>

theorem on_load_success_false_message_witness:
  "sample_parse ''nack'' = Ack sample_nack \<and> \<not> success sample_nack \<and>
   on_load sample_parse 200 ''nack'' idle =
     (idle,
      [JSON_parse ''nack'', console_error txt_parse_failed ''quota exceeded'',
       message_error txt_format_error, onError ''quota exceeded''])"
  using on_load_success_false_message [of sample_parse "''nack''" sample_nack idle]
  by (simp add: sample_parse_simps idle_def)

text \<open>
  Status 201 lies in the range from 200 to 299 and the body parses with \<open>success\<close> false and
  the message "quota exceeded", yet the error reported is "upload failed: HTTP 201".
\<close>

theorem on_load_status_201_not_the_message:
  "(200 :: nat) \<le> 201 \<and> (201 :: nat) \<le> 299 \<and>
   sample_parse ''nack'' = Ack sample_nack \<and> \<not> success sample_nack \<and>
   message sample_nack = ''quota exceeded'' \<and>
   snd (on_load sample_parse 201 ''nack'' idle) =
     [message_error (txt_upload_failed_http @ ''201''),
      onError (txt_upload_failed_http @ ''201'')] \<and>
   txt_upload_failed_http @ ''201'' \<noteq> ''quota exceeded''"
  by (simp add: on_load_not_200 sample_parse_simps string_of_nat_samples
        txt_upload_failed_http_def)

subsection \<open>A body that is not an acknowledgment\<close>

text \<open>
  The listener fails a body only when \<^verbatim>\<open>JSON.parse\<close> throws, when the value is \<^verbatim>\<open>null\<close>, or
  when its \<^verbatim>\<open>success\<close> is falsy. Any other value is taken for an acknowledgment, whatever
  else it holds or lacks.

  Claim C8 says that no failed transfer, a malformed acknowledgment among them, creates a
  record, partial or complete. At status 200 the body \<^verbatim>\<open>{"success":true}\<close>, which has no
  \<^verbatim>\<open>file_info\<close> and no \<^verbatim>\<open>project_id\<close>, is reported as a success, and the object appended to
  the list has the one property \<^verbatim>\<open>project_id\<close>, whose value is \<^verbatim>\<open>undefined\<close>.
\<close>

theorem on_load_appends_partial_record:
  "sample_parse body_success_only = Other (JObj [(''success'', JBool True)]) \<and>
   on_load sample_parse 200 body_success_only (idle\<lparr>uploadedFiles := [sample_entry ''p0'']\<rparr>) =
     (idle\<lparr>uploadedFiles := [sample_entry ''p0'', Untyped [(''project_id'', None)]]\<rparr>,
      [JSON_parse body_success_only, message_success_value None,
       onSuccess_value (JObj [(''success'', JBool True)])])"
  by (simp add: on_load_200_Other_truthy sample_parse_simps set_prop_def idle_def)

text \<open>
  A value of the declared type, read as any other value is, gives the object the typed
  reading gives: the seven properties of its \<^verbatim>\<open>file_info\<close> and its \<^verbatim>\<open>project_id\<close>.
\<close>

lemma on_load_Other_of_declared_type:
  assumes "parse body =
             Other (JObj [(''success'', JBool True), (''message'', JStr m),
                          (''file_info'',
                             JObj [(''filename'', JStr f1), (''original_name'', JStr f2),
                                   (''size'', JNum n), (''extension'', JStr f4),
                                   (''upload_time'', JStr f5), (''file_path'', JStr f6),
                                   (''status'', JStr f7)]),
                          (''project_id'', JStr pid)])"
  shows "uploadedFiles (fst (on_load parse 200 body st)) =
           uploadedFiles st @
             [Untyped [(''filename'', Some (JStr f1)), (''original_name'', Some (JStr f2)),
                       (''size'', Some (JNum n)), (''extension'', Some (JStr f4)),
                       (''upload_time'', Some (JStr f5)), (''file_path'', Some (JStr f6)),
                       (''status'', Some (JStr f7)), (''project_id'', Some (JStr pid))]]"
  using assms by (simp add: on_load_def set_prop_def)

subsection \<open>Whole transfers\<close>

lemma fst_run_events_Cons:
  "fst (run_events parse pct (ev # evs) st) =
     fst (run_events parse pct evs (fst (dispatch parse pct ev st)))"
  by (simp split: prod.splits)

lemma run_events_append:
  "run_events parse pct (xs @ ys) st =
     (let (st1, effs1) = run_events parse pct xs st;
          (st2, effs2) = run_events parse pct ys st1
      in (st2, effs1 @ effs2))"
  by (induction xs arbitrary: st) (auto split: prod.splits)

lemma run_last:
  "fst (run_events parse pct (evs @ [t]) st) =
     fst (dispatch parse pct t (fst (run_events parse pct evs st)))"
  by (simp add: run_events_append split: prod.splits)


lemma on_progress_uploadedFiles:
  "uploadedFiles (fst (on_progress pct ev st)) = uploadedFiles st"
  by (simp add: on_progress_def Let_def)

lemma run_progress_uploadedFiles:
  "uploadedFiles (fst (run_events parse pct (map ProgressEv ps) st)) = uploadedFiles st"
proof (induction ps arbitrary: st)
  case Nil
  then show ?case by simp
next
  case (Cons p ps)
  have "uploadedFiles (fst (run_events parse pct (map ProgressEv ps) (fst (on_progress pct p st))))
          = uploadedFiles (fst (on_progress pct p st))"
    by (rule Cons.IH)
  then show ?case
    by (simp only: list.map fst_run_events_Cons dispatch.simps on_progress_uploadedFiles)
qed






lemma on_load_flags:
  "uploading (fst (on_load parse s b st)) = False \<and>
   uploadProgress (fst (on_load parse s b st)) = 0"
  by (simp add: on_load_def Let_def split: prod.splits)

lemma on_error_flags:
  "uploading (fst (on_error st)) = False \<and> uploadProgress (fst (on_error st)) = 0"
  by (simp add: on_error_def Let_def)

lemma dispatch_terminal_flags:
  "is_terminal t \<Longrightarrow>
   uploading (fst (dispatch parse pct t st)) = False \<and>
   uploadProgress (fst (dispatch parse pct t st)) = 0"
  by (cases t) (simp_all add: is_terminal_def on_load_flags on_error_flags)

lemma customUpload_uploadedFiles:
  "uploadedFiles (fst (customUpload r st)) = uploadedFiles st"
  by (cases r) (simp_all add: customUpload_def Let_def)

lemma upload_rejected:
  "\<not> fst (beforeUpload file) \<Longrightarrow>
   upload parse pct file r evs st = (st, snd (beforeUpload file))"
  by (cases "beforeUpload file") (auto simp: upload_def)

lemma upload_thrown:
  "fst (beforeUpload file) \<Longrightarrow>
   fst (upload parse pct file (Thrown e) evs st) = fst (customUpload (Thrown e) st)"
  by (cases "beforeUpload file") (auto simp: upload_def split: prod.splits)

lemma upload_sent:
  "fst (beforeUpload file) \<Longrightarrow>
   fst (upload parse pct file Sent evs st) =
     fst (run_events parse pct evs (fst (customUpload Sent st)))"
  by (cases "beforeUpload file") (auto simp: upload_def split: prod.splits)

lemma beforeUpload_samples:
  "\<not> fst (beforeUpload (sample_file ''payload.exe'' 10))"
  "fst (beforeUpload (sample_file ''main.cpp'' 1024))"
  by (simp_all add: beforeUpload_def sample_file_def fileExtension_samples
        fileExtension_main_cpp supportedExtensions_def maxFileSize_def)

text \<open>
  Every path on which the code itself reports a failure leaves the list of uploaded files
  as it was: a file that \<^verbatim>\<open>beforeUpload\<close> rejects, an exception thrown while sending, a
  transport error, a status other than 200, and at status 200 a body for which
  \<^verbatim>\<open>JSON.parse\<close> throws, the value \<^verbatim>\<open>null\<close>, and a value whose \<^verbatim>\<open>success\<close> is falsy.
\<close>

lemma on_load_failed_uploadedFiles:
  assumes "s \<noteq> 200 \<or>
           (case parse b of
              Throws _ \<Rightarrow> True
            | Ack resp \<Rightarrow> \<not> success resp
            | Other v \<Rightarrow> v = JNull \<or> \<not> truthy (get_prop v ''success''))"
  shows "uploadedFiles (fst (on_load parse s b st)) = uploadedFiles st"
  using assms
  by (rule_tac on_load_cases [where xhr_status = s and parse = parse and body = b])
    (simp_all add: on_load_not_200 on_load_200_Throws on_load_200_nack on_load_200_null
       on_load_200_Other_falsy)

lemma reported_failure_keeps_uploadedFiles:
  "(\<not> fst (beforeUpload file) \<longrightarrow> fst (upload parse pct file r evs st) = st) \<and>
   uploadedFiles (fst (upload parse pct file (Thrown e) evs st)) = uploadedFiles st \<and>
   uploadedFiles (fst (upload parse pct file Sent (map ProgressEv ps @ [ErrorEv]) st))
     = uploadedFiles st \<and>
   (xhr_status \<noteq> 200 \<or>
    (case parse body of
       Throws _ \<Rightarrow> True
     | Ack resp \<Rightarrow> \<not> success resp
     | Other v \<Rightarrow> v = JNull \<or> \<not> truthy (get_prop v ''success'')) \<longrightarrow>
      uploadedFiles
        (fst (upload parse pct file Sent (map ProgressEv ps @ [LoadEv xhr_status body]) st))
        = uploadedFiles st)"
proof (cases "fst (beforeUpload file)")
  case False
  then show ?thesis by (simp add: upload_rejected)
next
  case True
  have a: "uploadedFiles (fst (upload parse pct file (Thrown e) evs st)) = uploadedFiles st"
    using True by (simp add: upload_thrown customUpload_uploadedFiles)
  have b: "uploadedFiles (fst (upload parse pct file Sent (map ProgressEv ps @ [ErrorEv]) st))
             = uploadedFiles st"
    using True
    by (simp add: upload_sent run_last on_error_def Let_def run_progress_uploadedFiles
          customUpload_uploadedFiles)
  have c: "uploadedFiles
             (fst (upload parse pct file Sent (map ProgressEv ps @ [LoadEv xhr_status body]) st))
             = uploadedFiles st"
    if "xhr_status \<noteq> 200 \<or>
        (case parse body of
           Throws _ \<Rightarrow> True
         | Ack resp \<Rightarrow> \<not> success resp
         | Other v \<Rightarrow> v = JNull \<or> \<not> truthy (get_prop v ''success''))"
    using True that
    by (simp add: upload_sent run_last on_load_failed_uploadedFiles run_progress_uploadedFiles
          customUpload_uploadedFiles)
  from True a b c show ?thesis by simp
qed

text \<open>
  Claim C10. Beginning a transfer sets \<open>uploading\<close> to true and \<open>uploadProgress\<close> to 0
  and calls nothing, so this happens before any progress tick. Every way a transfer ends
  (the catch block of the send, the load listener whatever the status and the body, the
  error listener) leaves \<open>uploading\<close> false and \<open>uploadProgress\<close> 0. Hence a component
  that is idle with progress 0 before a file is handed in is idle with progress 0 again once
  the attempt has ended, whether the file was rejected, the send threw, or the ticks were
  followed by a load or an error event.
\<close>

theorem upload_flags_invariant:
  "fst (customUpload Sent st) = st\<lparr>uploading := True, uploadProgress := 0\<rparr> \<and>
   snd (customUpload Sent st) = [] \<and>
   (uploading (fst (customUpload (Thrown e) st)) = False \<and>
    uploadProgress (fst (customUpload (Thrown e) st)) = 0) \<and>
   (uploading (fst (on_load parse xhr_status body st)) = False \<and>
    uploadProgress (fst (on_load parse xhr_status body st)) = 0) \<and>
   (uploading (fst (on_error st)) = False \<and> uploadProgress (fst (on_error st)) = 0) \<and>
   (is_terminal t \<and> \<not> uploading st \<and> uploadProgress st = 0 \<longrightarrow>
      \<not> uploading (fst (upload parse pct file r (map ProgressEv ps @ [t]) st)) \<and>
      uploadProgress (fst (upload parse pct file r (map ProgressEv ps @ [t]) st)) = 0)"
proof -
  have 1: "fst (customUpload Sent st) = st\<lparr>uploading := True, uploadProgress := 0\<rparr>"
    and 2: "snd (customUpload Sent st) = []"
    and 3: "uploading (fst (customUpload (Thrown e) st)) = False \<and>
            uploadProgress (fst (customUpload (Thrown e) st)) = 0"
    by (simp_all add: customUpload_def Let_def)
  have 4: "\<not> uploading (fst (upload parse pct file r (map ProgressEv ps @ [t]) st)) \<and>
           uploadProgress (fst (upload parse pct file r (map ProgressEv ps @ [t]) st)) = 0"
    if t: "is_terminal t" and idle: "\<not> uploading st" "uploadProgress st = 0"
  proof (cases "fst (beforeUpload file)")
    case False
    then show ?thesis using idle by (simp add: upload_rejected)
  next
    case True
    show ?thesis
    proof (cases r)
      case Sent
      then show ?thesis using True dispatch_terminal_flags [OF t]
        by (simp add: upload_sent run_last)
    next
      case (Thrown x)
      then show ?thesis using True
        by (simp add: upload_thrown customUpload_def Let_def)
    qed
  qed
  from 1 2 3 4 on_load_flags on_error_flags show ?thesis by blast
qed

text \<open>
  The theorem from the idle component: \<open>main.cpp\<close> is sent, one tick shows 50 percent, and
  the transfer ends with status 200 and the sample acknowledgment.
\<close>

theorem upload_flags_invariant_witness:
  "is_terminal (LoadEv 200 ''ack'') \<and> \<not> uploading idle \<and> uploadProgress idle = 0 \<and>
   uploading (fst (customUpload Sent idle)) \<and> uploadProgress (fst (customUpload Sent idle)) = 0 \<and>
   \<not> uploading (fst (upload sample_parse (\<lambda>l t. 50) (sample_file ''main.cpp'' 1024) Sent
        [ProgressEv \<lparr>lengthComputable = True, loaded = 512, total = 1024\<rparr>, LoadEv 200 ''ack''] idle)) \<and>
   uploadProgress (fst (upload sample_parse (\<lambda>l t. 50) (sample_file ''main.cpp'' 1024) Sent
        [ProgressEv \<lparr>lengthComputable = True, loaded = 512, total = 1024\<rparr>, LoadEv 200 ''ack''] idle)) = 0"
proof -
  have h: "is_terminal (LoadEv 200 ''ack'') \<and> \<not> uploading idle \<and> uploadProgress idle = 0"
    by (simp add: is_terminal_def idle_def)
  from h upload_flags_invariant
         [of idle "''boom''" sample_parse 200 "''ack''" "LoadEv 200 ''ack''" "\<lambda>l t. 50"
             "sample_file ''main.cpp'' 1024" Sent
             "[\<lparr>lengthComputable = True, loaded = 512, total = 1024\<rparr>]"]
  show ?thesis by simp
qed

subsection \<open>The percentage in double arithmetic\<close>

lemma pow2_less_imp_less: "(2::rat) powi a < 2 powi b \<Longrightarrow> a < b"
proof (rule ccontr)
  assume lt: "(2::rat) powi a < 2 powi b" and "\<not> a < b"
  then have "b \<le> a" by simp
  then have "(2::rat) powi b \<le> 2 powi a" by (intro power_int_increasing) simp_all
  with lt show False by simp
qed

lemma pow2_Suc: "(2::rat) powi (e + 1) = 2 * 2 powi e"
  by (simp add: power_int_add_1')

lemma pow2_pred: "(2::rat) powi (e - 1) = 2 powi e / 2"
  using pow2_Suc [of "e - 1"] by simp

lemma ilog2_bounds: "0 < x \<Longrightarrow> 2 powi ilog2 x \<le> x \<and> x < 2 powi (ilog2 x + 1)"
proof (induction x rule: ilog2.induct)
  case (1 x)
  show ?case
  proof (cases "2 \<le> x")
    case True
    then have e: "ilog2 x = ilog2 (x / 2) + 1" using "1.prems" by (subst ilog2.simps) simp
    have "2 powi ilog2 (x / 2) \<le> x / 2 \<and> x / 2 < 2 powi (ilog2 (x / 2) + 1)"
      using "1.IH"(1) True "1.prems" by simp
    moreover have "(2::rat) powi (ilog2 (x / 2) + 1) = 2 * 2 powi ilog2 (x / 2)"
      "(2::rat) powi (ilog2 (x / 2) + 1 + 1) = 2 * 2 powi (ilog2 (x / 2) + 1)"
      by (rule pow2_Suc)+
    ultimately show ?thesis unfolding e by linarith
  next
    case False
    show ?thesis
    proof (cases "x < 1")
      case True
      then have e: "ilog2 x = ilog2 (x * 2) - 1" using "1.prems" False by (subst ilog2.simps) simp
      have "2 powi ilog2 (x * 2) \<le> x * 2 \<and> x * 2 < 2 powi (ilog2 (x * 2) + 1)"
        using "1.IH"(2) True False "1.prems" by simp
      moreover have "(2::rat) powi (ilog2 (x * 2) + 1) = 2 * 2 powi ilog2 (x * 2)"
        by (rule pow2_Suc)
      moreover have "(2::rat) powi (ilog2 (x * 2) - 1) = 2 powi ilog2 (x * 2) / 2"
        by (rule pow2_pred)
      moreover have "ilog2 (x * 2) - 1 + 1 = ilog2 (x * 2)" by simp
      ultimately show ?thesis unfolding e by (simp only:) linarith
    next
      case ge1: False
      then have "ilog2 x = 0" using "1.prems" \<open>\<not> 2 \<le> x\<close> by (subst ilog2.simps) simp
      then show ?thesis using ge1 \<open>\<not> 2 \<le> x\<close> by simp
    qed
  qed
qed

lemma ilog2_unique:
  assumes "0 < x" "2 powi e \<le> x" "x < 2 powi (e + 1)"
  shows "ilog2 x = e"
proof -
  from ilog2_bounds [OF assms(1)]
  have "(2::rat) powi ilog2 x < 2 powi (e + 1)" "(2::rat) powi e < 2 powi (ilog2 x + 1)"
    using assms by auto
  then have "ilog2 x < e + 1" "e < ilog2 x + 1" by (auto dest: pow2_less_imp_less)
  then show ?thesis by simp
qed


lemma round_half_even_of_int [simp]: "round_half_even (of_int n) = n"
  by (simp add: round_half_even_def)








lemma floor_numeral_div:
  "\<lfloor>numeral a / numeral b :: rat\<rfloor> = numeral a div numeral b"
  using floor_divide_of_int_eq [of "numeral a" "numeral b", where ?'a = rat] by simp

lemmas rhe_eval = round_half_even_def Let_def floor_numeral_div

lemma round_to_double_0 [simp]: "round_to_double 0 = 0"
  by (simp add: round_to_double_def)

lemma round_to_double_eval:
  assumes "0 < x" "2 powi e \<le> x" "x < 2 powi (e + 1)"
  shows "round_to_double x = of_int (round_half_even (x / 2 powi (e - 52))) * 2 powi (e - 52)"
  using assms ilog2_unique [OF assms] by (simp add: round_to_double_def Let_def)

lemma round_to_double_1 [simp]: "round_to_double 1 = 1"
  by (subst round_to_double_eval [where e = 0]) (simp_all add: round_half_even_def)

lemma round_to_double_100 [simp]: "round_to_double 100 = 100"
  by (subst round_to_double_eval [where e = 6]) (simp_all add: round_half_even_def)











lemma percent_29_200: "percent 29 200 = 14"
proof -
  have a: "round_to_double 29 = 29"
    by (subst round_to_double_eval [where e = 4]) (simp_all add: rhe_eval)
  have b: "round_to_double 200 = 200"
    by (subst round_to_double_eval [where e = 7]) (simp_all add: rhe_eval)
  have c: "round_to_double (29 / 200) = 5224175567749775 / 36028797018963968"
    by (subst round_to_double_eval [where e = "- 3"]) (simp_all add: rhe_eval)
  have d: "round_to_double (5224175567749775 / 36028797018963968 * 100) = 8162774324609023 / 562949953421312"
    by (subst round_to_double_eval [where e = 3]) (simp_all add: rhe_eval)
  show ?thesis
    unfolding percent_def of_nat_numeral a b c d Math_round_def
    by (simp add: floor_numeral_div)
qed

subsection \<open>Progress ticks\<close>










subsection \<open>Removal from the list\<close>

lemma filter_enumerate:
  "map snd (filter (\<lambda>(i, x). int i \<noteq> k) (List.enumerate m xs)) =
     (if int m \<le> k \<and> k < int m + int (length xs)
      then take (nat k - m) xs @ drop (Suc (nat k - m)) xs else xs)"
proof (induction xs arbitrary: m)
  case Nil
  then show ?case by simp
next
  case (Cons x xs)
  show ?case
  proof (cases "int m = k")
    case True
    have "map snd (filter (\<lambda>(i, x). int i \<noteq> k) (List.enumerate (Suc m) xs)) = xs"
      using Cons.IH [of "Suc m"] True by simp
    with True show ?thesis by auto
  next
    case False
    show ?thesis
    proof (cases "int (Suc m) \<le> k \<and> k < int (Suc m) + int (length xs)")
      case True
      then have "nat k - m = Suc (nat k - Suc m)" by linarith
      with True False show ?thesis using Cons.IH [of "Suc m"] by simp
    next
      case False
      with \<open>int m \<noteq> k\<close> show ?thesis using Cons.IH [of "Suc m"] by auto
    qed
  qed
qed

text \<open>
  Claim C9. For an index \<open>i\<close> with \<open>0 \<le> i < n\<close>, where \<open>n\<close> is the length of the list,
  \<^verbatim>\<open>removeFile\<close> leaves the elements before position \<open>i\<close> followed by the elements after
  it, in their order, \<open>n - 1\<close> elements in all. For any other index the list is unchanged.
  In both cases the only call made is the success toast: no error is reported.
\<close>

theorem removeFile_drops_position:
  "(0 \<le> i \<and> i < int (length (uploadedFiles st)) \<longrightarrow>
      uploadedFiles (fst (removeFile i st)) =
        take (nat i) (uploadedFiles st) @ drop (Suc (nat i)) (uploadedFiles st) \<and>
      length (uploadedFiles (fst (removeFile i st))) = length (uploadedFiles st) - 1) \<and>
   (\<not> (0 \<le> i \<and> i < int (length (uploadedFiles st))) \<longrightarrow>
      uploadedFiles (fst (removeFile i st)) = uploadedFiles st) \<and>
   snd (removeFile i st) = [message_success txt_removed]"
  by (auto simp: removeFile_def filter_indexed_def filter_enumerate)

text \<open>The theorem on a list of three entries, at the indices 1, 3 and -1.\<close>

theorem removeFile_drops_position_witness:
  "uploadedFiles (fst (removeFile 1
       (idle\<lparr>uploadedFiles := [sample_entry ''a'', sample_entry ''b'', sample_entry ''c'']\<rparr>)))
     = [sample_entry ''a'', sample_entry ''c''] \<and>
   uploadedFiles (fst (removeFile 3
       (idle\<lparr>uploadedFiles := [sample_entry ''a'', sample_entry ''b'', sample_entry ''c'']\<rparr>)))
     = [sample_entry ''a'', sample_entry ''b'', sample_entry ''c''] \<and>
   uploadedFiles (fst (removeFile (- 1)
       (idle\<lparr>uploadedFiles := [sample_entry ''a'', sample_entry ''b'', sample_entry ''c'']\<rparr>)))
     = [sample_entry ''a'', sample_entry ''b'', sample_entry ''c''] \<and>
   snd (removeFile 3
       (idle\<lparr>uploadedFiles := [sample_entry ''a'', sample_entry ''b'', sample_entry ''c'']\<rparr>))
     = [message_success txt_removed]"
proof -
  let ?st = "idle\<lparr>uploadedFiles := [sample_entry ''a'', sample_entry ''b'', sample_entry ''c'']\<rparr>"
  from removeFile_drops_position [of 1 ?st] removeFile_drops_position [of 3 ?st]
    removeFile_drops_position [of "- 1" ?st]
  show ?thesis by simp
qed

end
